theory Spec2Isabelle
  imports Main
begin

section \<open>Text and the regular expressions of the page script\<close>

text \<open>
  Text is a \<^typ>\<open>string\<close>; a character outside ASCII stands as its UTF-8 bytes. Every
  pattern of the script is an alternation of ASCII literals, one of them anchored at the
  start (\<open>^FATAL:\<close>) and one at the end (\<open>OK$\<close>), so a pattern is a list of
  alternatives and \<open>RegExp.test\<close> asks whether one of them occurs. The flag \<open>i\<close>
  compares ASCII letters without case; bytes from 128 on are never equal to an ASCII
  letter under it.
\<close>

datatype alt = Lit string | AtStart string | AtEnd string

fun starts_with :: "string \<Rightarrow> string \<Rightarrow> bool" where
  "starts_with [] s = True"
| "starts_with (p # ps) [] = False"
| "starts_with (p # ps) (c # cs) = (p = c \<and> starts_with ps cs)"

fun contains :: "string \<Rightarrow> string \<Rightarrow> bool" where
  "contains p [] = starts_with p []"
| "contains p (c # cs) = (starts_with p (c # cs) \<or> contains p cs)"

definition ends_with :: "string \<Rightarrow> string \<Rightarrow> bool" where
  "ends_with p s = starts_with (rev p) (rev s)"

definition lower_char :: "char \<Rightarrow> char" where
  "lower_char c =
     (case map_of (zip ''ABCDEFGHIJKLMNOPQRSTUVWXYZ'' ''abcdefghijklmnopqrstuvwxyz'') c of
        Some d \<Rightarrow> d
      | None \<Rightarrow> c)"

definition lower :: "string \<Rightarrow> string" where
  "lower s = map lower_char s"

fun alt_test :: "alt \<Rightarrow> string \<Rightarrow> bool" where
  "alt_test (Lit p) s = contains p s"
| "alt_test (AtStart p) s = starts_with p s"
| "alt_test (AtEnd p) s = ends_with p s"

fun alt_lower :: "alt \<Rightarrow> alt" where
  "alt_lower (Lit p) = Lit (lower p)"
| "alt_lower (AtStart p) = AtStart (lower p)"
| "alt_lower (AtEnd p) = AtEnd (lower p)"

definition test :: "alt list \<Rightarrow> string \<Rightarrow> bool" where
  "test re s = list_ex (\<lambda>a. alt_test a s) re"

definition test_i :: "alt list \<Rightarrow> string \<Rightarrow> bool" where
  "test_i re s = test (map alt_lower re) (lower s)"

subsection \<open>The patterns\<close>

definition re_err :: "alt list" where
  "re_err = [Lit ''FATAL:'', Lit ''error'']"

definition re_ok :: "alt list" where
  "re_ok = [AtEnd ''OK'', Lit ''loaded'', Lit ''configured'', Lit ''completed'',
            Lit ''Listening'', Lit ''available'']"

definition re_warn :: "alt list" where
  "re_warn = [Lit ''warn'', Lit ''requires'', Lit ''not available'']"

definition re_established :: "alt list" where
  "re_established = [Lit ''new QUIC connection'', Lit ''handshake completed'',
                     Lit ''connection established'']"

definition re_closed :: "alt list" where
  "re_closed = [Lit ''connection closed'', Lit ''connection timeout'', Lit ''draining'']"

definition re_listening :: "alt list" where
  "re_listening = [Lit ''Listening'', Lit ''Waiting for QUIC'']"

definition re_fatal :: "alt list" where
  "re_fatal = [AtStart ''FATAL:'']"

subsection \<open>Numbers as text\<close>

text \<open>
  \<open>String(n)\<close> and \<open>'' + n\<close> for the integers the script prints: decimal digits,
  with a minus sign below zero.
\<close>

definition digit_char :: "nat \<Rightarrow> char" where
  "digit_char d = ''0123456789'' ! (d mod 10)"

function String_nat :: "nat \<Rightarrow> string" where
  "String_nat n = (if n < 10 then [digit_char n] else String_nat (n div 10) @ [digit_char n])"
  by pat_completeness auto
termination
  by (relation "measure id") auto

declare String_nat.simps [simp del]

definition String_int :: "int \<Rightarrow> string" where
  "String_int i = (if i < 0 then CHR ''-'' # String_nat (nat (- i)) else String_nat (nat i))"

definition em_dash :: string where
  "em_dash = [CHR 0xE2, CHR 0x80, CHR 0x94]"

section \<open>The page\<close>

text \<open>
  What the script reads from the host once, when it starts: each \<open>typeof x !== 'undefined'\<close>,
  \<open>'x' in navigator\<close> and truthiness test of \<open>checkEnvironment\<close> and
  \<open>detectCapabilities\<close> is one feature of the host.
\<close>

datatype feature =
    SharedArrayBuffer | CrossOriginIsolated | TCPSocket | UDPSocket | TCPServerSocket
  | SetAppBadge | WakeLock | IdleDetector | ShowOpenFilePicker | ClipboardWrite | EyeDropper
  | QueryLocalFonts | Bluetooth | Usb | Hid | Serial | StartViewTransition | TogglePopover
  | Navigation | GetScreenDetails | Notification | Share

type_synonym host = "feature \<Rightarrow> bool"

record log_line =
  className :: string
  msg :: string

record env_card =
  icon_src :: string
  card_label :: string
  card_value :: string
  value_class :: string

record cap_item =
  item_class :: string
  item_name :: string

datatype badge_call = setAppBadge int | clearAppBadge

text \<open>
  The state of the page: the properties of the elements the script writes, its two
  counters, and what it has asked of the browser (the \<open>Module\<close> object installed on
  the window, the script elements appended, the windows opened, the calls of the Badging
  API, in the order of the requests). The counters are JavaScript numbers that only ever
  hold integers reached from 0 in steps of one, where the arithmetic is exact; they are
  \<^typ>\<open>int\<close> and \<^typ>\<open>nat\<close> here. The time stamp that \<open>log\<close> puts in front of
  a line is read from the clock and is left out of \<^typ>\<open>log_line\<close>. The markup is
  taken to hold every element the script looks up (\<open>getElementById(...)!\<close>,
  \<open>querySelector('.log-container')!\<close>), as its non-null assertions say.
\<close>

record page =
  logEl :: "log_line list"
  lineCount :: nat
  logCountEl :: string
  statusTextEl :: string
  statusEl :: string
  btnStart_disabled :: bool
  loadingOverlay_active :: bool
  log_container_glow :: bool
  badgeDisplay :: string
  badgeCountEl :: string
  connectionCount :: int
  envGrid :: "env_card list"
  capsGrid :: "cap_item list"
  Module :: bool
  scripts :: "string list"
  pending :: nat
  opened :: "string list"
  badge_calls :: "badge_call list"

definition badgingSupported :: "host \<Rightarrow> bool" where
  "badgingSupported h = h SetAppBadge"

definition updateBadge :: "host \<Rightarrow> int \<Rightarrow> page \<Rightarrow> page" where
  "updateBadge h count s =
     (let s1 = s\<lparr>connectionCount := count,
                 badgeCountEl := String_int count,
                 badgeDisplay := (if count > 0 then ''inline-flex'' else ''none'')\<rparr>
      in if badgingSupported h
         then s1\<lparr>badge_calls := badge_calls s1 @
                    [if count > 0 then setAppBadge count else clearAppBadge]\<rparr>
         else s1)"

definition setStatus :: "string \<Rightarrow> string \<Rightarrow> page \<Rightarrow> page" where
  "setStatus txt cls s = s\<lparr>statusTextEl := txt, statusEl := ''status-pill '' @ cls\<rparr>"

definition severity :: "string \<Rightarrow> string" where
  "severity m =
     (if test_i re_err m then ''log-err''
      else if test_i re_ok m then ''log-ok''
      else if test_i re_warn m then ''log-warn''
      else ''log-info'')"

text \<open>
  The optional parameter \<open>cls\<close> is \<open>None\<close> when the caller leaves it out; \<open>!cls\<close>
  is also true of the empty string.
\<close>

definition log :: "string \<Rightarrow> string option \<Rightarrow> page \<Rightarrow> page" where
  "log m cls s =
     (let c = (case cls of
                 None \<Rightarrow> severity m
               | Some c0 \<Rightarrow> if c0 = [] then severity m else c0);
          n = lineCount s + 1
      in s\<lparr>logEl := logEl s @ [\<lparr>className = ''log-line '' @ c, msg = m\<rparr>],
            lineCount := n,
            logCountEl := String_nat n @ '' line'' @ (if n \<noteq> 1 then ''s'' else [])\<rparr>)"

definition clearLog :: "page \<Rightarrow> page" where
  "clearLog s = s\<lparr>logEl := [], lineCount := 0, logCountEl := ''0 lines''\<rparr>"

definition createEnvCard :: "string \<Rightarrow> string \<Rightarrow> string \<Rightarrow> string \<Rightarrow> env_card" where
  "createEnvCard iconName label val cls =
     \<lparr>icon_src = ''/icons/'' @ iconName @ ''.svg'', card_label = label, card_value = val,
      value_class = ''env-card-value '' @ cls\<rparr>"

definition createCapItem :: "string \<Rightarrow> bool \<Rightarrow> cap_item" where
  "createCapItem name ok =
     \<lparr>item_class = ''cap-item '' @ (if ok then ''ok'' else ''off''), item_name = name\<rparr>"

subsection \<open>Environment checks\<close>

definition envIcons :: "(string \<times> string) list" where
  "envIcons = [(''SharedArrayBuffer'', ''high-voltage''), (''Cross-Origin Isolated'', ''guard-1''),
               (''Direct Sockets'', ''electric-plug''), (''Badging API'', ''bell'')]"

definition checks :: "host \<Rightarrow> (string \<times> string \<times> string) list" where
  "checks h =
     [(''SharedArrayBuffer'',
         if h SharedArrayBuffer then ''available'' else ''missing'',
         if h SharedArrayBuffer then ''ok'' else ''err''),
      (''Cross-Origin Isolated'',
         if h CrossOriginIsolated then ''yes'' else ''no'',
         if h CrossOriginIsolated then ''ok'' else ''warn''),
      (''Direct Sockets'',
         if h TCPSocket \<or> h UDPSocket then ''available'' else ''unavailable'',
         if h TCPSocket \<or> h UDPSocket then ''ok'' else ''warn''),
      (''Badging API'',
         if badgingSupported h then ''available'' else ''unavailable'',
         if badgingSupported h then ''ok'' else ''warn'')]"

fun show_check :: "page \<Rightarrow> string \<times> string \<times> string \<Rightarrow> page" where
  "show_check s (label, val, cls) =
     (let icon = (case map_of envIcons label of Some i \<Rightarrow> i | None \<Rightarrow> ''sparkles'')
      in log (label @ '': '' @ val) None
           (s\<lparr>envGrid := envGrid s @ [createEnvCard icon label val cls]\<rparr>))"

definition checkEnvironment :: "host \<Rightarrow> page \<Rightarrow> page" where
  "checkEnvironment h s =
     (let s1 = foldl show_check s (checks h)
      in if \<not> h SharedArrayBuffer
         then (setStatus ''missing SharedArrayBuffer'' ''status-error''
                 (log ''Need COOP/COEP headers or IWA context for SharedArrayBuffer''
                    (Some ''log-err'') s1))\<lparr>btnStart_disabled := True\<rparr>
         else log ''Ready to start.'' (Some ''log-ok'') s1)"

definition caps :: "host \<Rightarrow> (string \<times> bool) list" where
  "caps h =
     [(''UDPSocket'', h UDPSocket), (''TCPSocket'', h TCPSocket),
      (''TCPServerSocket'', h TCPServerSocket), (''App Badge'', h SetAppBadge),
      (''Wake Lock'', h WakeLock), (''Idle Detection'', h IdleDetector),
      (''File System'', h ShowOpenFilePicker), (''Clipboard'', h ClipboardWrite),
      (''EyeDropper'', h EyeDropper), (''Local Fonts'', h QueryLocalFonts),
      (''Web Bluetooth'', h Bluetooth), (''Web USB'', h Usb), (''Web HID'', h Hid),
      (''Web Serial'', h Serial), (''View Transitions'', h StartViewTransition),
      (''Popover'', h TogglePopover), (''Navigation API'', h Navigation),
      (''Screen Details'', h GetScreenDetails), (''Notifications'', h Notification),
      (''Web Share'', h Share)]"

definition detectCapabilities :: "host \<Rightarrow> page \<Rightarrow> page" where
  "detectCapabilities h s =
     (let okCount = length (filter snd (caps h));
          s1 = s\<lparr>capsGrid := capsGrid s @ map (\<lambda>(name, ok). createCapItem name ok) (caps h)\<rparr>
      in log (''IWA capabilities: '' @ String_nat okCount @ ''/'' @ String_nat (length (caps h))
                @ '' APIs detected'') (Some ''log-ok'') s1)"

subsection \<open>The callbacks of the module\<close>

text \<open>
  \<open>updateBadge\<close> is an async function: its body runs in the caller up to the first
  \<open>await\<close>, so the counter and the badge element are written, and the call of the
  Badging API is made, before \<open>printErr\<close> goes on. \<open>printErr\<close> is four tests in a
  row, each with its own block; the blocks are the four functions below.
\<close>

definition Module_print :: "string \<Rightarrow> page \<Rightarrow> page" where
  "Module_print txt s = log txt None s"

definition established_block :: "host \<Rightarrow> page \<Rightarrow> page" where
  "established_block h s =
     (let s1 = updateBadge h (connectionCount s + 1) s;
          s2 = log (''Connection #'' @ String_int (connectionCount s1) @ '' '' @ em_dash
                      @ '' badge updated'') (Some ''log-ok'') s1
      in s2\<lparr>opened := opened s2 @ [''/quic.html?conn='' @ String_int (connectionCount s2)]\<rparr>)"

definition closed_block :: "host \<Rightarrow> page \<Rightarrow> page" where
  "closed_block h s = updateBadge h (max 0 (connectionCount s - 1)) s"

definition listening_block :: "page \<Rightarrow> page" where
  "listening_block s =
     (setStatus (''running '' @ em_dash @ '' port 4433'') ''status-running'' s)
       \<lparr>loadingOverlay_active := False, log_container_glow := True\<rparr>"

definition fatal_block :: "page \<Rightarrow> page" where
  "fatal_block s = (setStatus ''error'' ''status-error'' s)\<lparr>loadingOverlay_active := False\<rparr>"

definition Module_printErr :: "host \<Rightarrow> string \<Rightarrow> page \<Rightarrow> page" where
  "Module_printErr h txt s =
     (let s1 = log txt None s;
          s2 = (if test_i re_established txt then established_block h s1 else s1);
          s3 = (if test_i re_closed txt then closed_block h s2 else s2);
          s4 = (if test re_listening txt then listening_block s3 else s3)
      in if test re_fatal txt then fatal_block s4 else s4)"

definition locateFile :: "string \<Rightarrow> string" where
  "locateFile path = path"

definition Module_onAbort :: "string \<Rightarrow> page \<Rightarrow> page" where
  "Module_onAbort what s =
     (setStatus ''aborted'' ''status-error''
        (log (''Module aborted: '' @ what) (Some ''log-err'') s))\<lparr>loadingOverlay_active := False\<rparr>"

subsection \<open>Starting the server\<close>

definition script_onload :: "page \<Rightarrow> page" where
  "script_onload s = log ''Emscripten JS loaded, spawning worker...'' None s"

definition script_onerror :: "page \<Rightarrow> page" where
  "script_onerror s =
     (setStatus ''load failed'' ''status-error''
        (log ''Failed to load quic_echo_server.js'' (Some ''log-err'') s))
       \<lparr>loadingOverlay_active := False, btnStart_disabled := False\<rparr>"

definition startServer :: "page \<Rightarrow> page" where
  "startServer s =
     (let s1 = setStatus ''loading...'' ''status-loading'' (s\<lparr>btnStart_disabled := True\<rparr>);
          s2 = log ''Loading QUIC echo server...'' None (s1\<lparr>loadingOverlay_active := True\<rparr>)
      in s2\<lparr>Module := True, scripts := scripts s2 @ [''quic_echo_server.js''],
             pending := pending s2 + 1\<rparr>)"

definition beforeunload :: "host \<Rightarrow> page \<Rightarrow> page" where
  "beforeunload h s =
     (if badgingSupported h then s\<lparr>badge_calls := badge_calls s @ [clearAppBadge]\<rparr> else s)"

section \<open>The page as an event-driven system\<close>

text \<open>
  The browser runs the handlers one at a time, each to its end. An event reaches its
  handler only where the browser can deliver it: a click on the start button when the
  button is not disabled; \<open>load\<close> or \<open>error\<close> of a script element once for each
  element appended (\<open>pending\<close> counts the elements still waiting); a callback of the
  module when \<open>window.Module\<close> has been installed. Otherwise the event does not occur and
  the page stays as it is.
\<close>

datatype event =
    Click_start | Click_clear | Script_load | Script_error
  | Print string | PrintErr string | Abort string | Before_unload

fun step :: "host \<Rightarrow> event \<Rightarrow> page \<Rightarrow> page" where
  "step h Click_start s = (if btnStart_disabled s then s else startServer s)"
| "step h Click_clear s = clearLog s"
| "step h Script_load s =
     (if pending s = 0 then s else script_onload (s\<lparr>pending := pending s - 1\<rparr>))"
| "step h Script_error s =
     (if pending s = 0 then s else script_onerror (s\<lparr>pending := pending s - 1\<rparr>))"
| "step h (Print txt) s = (if Module s then Module_print txt s else s)"
| "step h (PrintErr txt) s = (if Module s then Module_printErr h txt s else s)"
| "step h (Abort what) s = (if Module s then Module_onAbort what s else s)"
| "step h Before_unload s = beforeunload h s"

fun run :: "host \<Rightarrow> event list \<Rightarrow> page \<Rightarrow> page" where
  "run h [] s = s"
| "run h (e # es) s = run h es (step h e s)"

text \<open>
  Loading the page: the markup \<open>quic.html\<close> gives the elements their first properties
  (it is a parameter), the script sets its two counters to 0, nothing has been
  asked of the browser yet, and the two immediately invoked functions run in the order of
  the file. (\<open>showCertHash\<close> writes only to the certificate card, which nothing else
  reads, and is left out.)
\<close>

definition script_start :: "page \<Rightarrow> page" where
  "script_start d =
     d\<lparr>lineCount := 0, connectionCount := 0, Module := False, scripts := [], pending := 0,
         opened := [], badge_calls := []\<rparr>"

definition page_load :: "host \<Rightarrow> page \<Rightarrow> page" where
  "page_load h d = detectCapabilities h (checkEnvironment h (script_start d))"

text \<open>A page whose markup leaves every element empty and the start button enabled.\<close>

definition blank :: page where
  "blank = \<lparr>logEl = [], lineCount = 0, logCountEl = [], statusTextEl = [], statusEl = [],
            btnStart_disabled = False, loadingOverlay_active = False,
            log_container_glow = False, badgeDisplay = [], badgeCountEl = [],
            connectionCount = 0, envGrid = [], capsGrid = [], Module = False, scripts = [],
            pending = 0, opened = [], badge_calls = []\<rparr>"

definition full_host :: host where
  "full_host f = True"

section \<open>Notions used to state the properties\<close>

text \<open>Reading a decimal numeral back, to say which number a text displays.\<close>

definition digit_value :: "char \<Rightarrow> nat" where
  "digit_value c = of_char c - 48"

definition decimal :: "string \<Rightarrow> nat" where
  "decimal s = foldl (\<lambda>a c. 10 * a + digit_value c) 0 s"

text \<open>
  The badge of the page mirrors the counter: the badge element is displayed exactly when
  the counter is positive, and its text is the counter.
\<close>

definition badge_synced :: "page \<Rightarrow> bool" where
  "badge_synced s =
     (badgeDisplay s = (if 0 < connectionCount s then ''inline-flex'' else ''none'') \<and>
      badgeCountEl s = String_int (connectionCount s))"

text \<open>A diagnostic line that matches the listening and the established pattern at once.\<close>

definition listening_and_established :: string where
  "listening_and_established = ''Listening: new QUIC connection''"

text \<open>The entry that \<open>log\<close> appends for a line given without a class.\<close>

definition entry :: "string \<Rightarrow> log_line" where
  "entry t = \<lparr>className = ''log-line '' @ severity t, msg = t\<rparr>"

text \<open>The notice that the established block logs for connection \<open>n\<close>.\<close>

definition notice :: "int \<Rightarrow> log_line" where
  "notice n = \<lparr>className = ''log-line log-ok'',
               msg = ''Connection #'' @ String_int n @ '' '' @ em_dash @ '' badge updated''\<rparr>"

text \<open>
  Lines as the module delivers them, each on one of its two channels, and the entries a
  sequence of lines leaves in the log, line after line, when the counter stands at
  \<open>c\<close> before the first.
\<close>

datatype channel = Standard | Diagnostic

fun deliver :: "channel \<times> string \<Rightarrow> event" where
  "deliver (Standard, t) = Print t"
| "deliver (Diagnostic, t) = PrintErr t"

fun count_after :: "int \<Rightarrow> channel \<times> string \<Rightarrow> int" where
  "count_after c (Standard, t) = c"
| "count_after c (Diagnostic, t) =
     (let c1 = (if test_i re_established t then c + 1 else c)
      in if test_i re_closed t then max 0 (c1 - 1) else c1)"

fun entries_of :: "int \<Rightarrow> channel \<times> string \<Rightarrow> log_line list" where
  "entries_of c (Standard, t) = [entry t]"
| "entries_of c (Diagnostic, t) =
     entry t # (if test_i re_established t then [notice (c + 1)] else [])"

fun transcript :: "int \<Rightarrow> (channel \<times> string) list \<Rightarrow> log_line list" where
  "transcript c [] = []"
| "transcript c (l # ls) = entries_of c l @ transcript (count_after c l) ls"

text \<open>
  The severity rules as an ordered table, tried from the first: the first rule whose
  pattern matches gives the class, and the default stands when none matches.
\<close>

fun first_match :: "(alt list \<times> string) list \<Rightarrow> string \<Rightarrow> string \<Rightarrow> string" where
  "first_match [] dflt m = dflt"
| "first_match ((re, c) # rules) dflt m = (if test_i re m then c else first_match rules dflt m)"

definition severity_rules :: "(alt list \<times> string) list" where
  "severity_rules = [(re_err, ''log-err''), (re_ok, ''log-ok''), (re_warn, ''log-warn'')]"

text \<open>Everything a trigger can write: status, overlay, glow, counter, badge, windows, button.\<close>

definition trigger_view ::
  "page \<Rightarrow> (string \<times> string \<times> bool \<times> bool) \<times> (int \<times> string \<times> string \<times> badge_call list)
          \<times> string list \<times> bool" where
  "trigger_view s =
     ((statusTextEl s, statusEl s, loadingOverlay_active s, log_container_glow s),
      (connectionCount s, badgeCountEl s, badgeDisplay s, badge_calls s),
      opened s, btnStart_disabled s)"

text \<open>What the status pill shows.\<close>

definition shows_error :: "page \<Rightarrow> bool" where
  "shows_error s = (statusEl s = ''status-pill status-error'')"

definition shows_running :: "page \<Rightarrow> bool" where
  "shows_running s = (statusEl s = ''status-pill status-running'')"

text \<open>The events whose handler sets the status to running.\<close>

fun sets_running :: "event \<Rightarrow> bool" where
  "sets_running (PrintErr t) = (test re_listening t \<and> \<not> test re_fatal t)"
| "sets_running e = False"

text \<open>No start of the module has been asked for, and none can be.\<close>

definition never_started :: "page \<Rightarrow> bool" where
  "never_started s = (btnStart_disabled s \<and> \<not> Module s \<and> scripts s = [] \<and> pending s = 0)"

text \<open>Two hosts that differ from each other in every probe.\<close>

definition sab_only_host :: host where
  "sab_only_host f = (f = SharedArrayBuffer)"

definition no_sab_host :: host where
  "no_sab_host f = (f \<noteq> SharedArrayBuffer)"

section \<open>Properties\<close>

lemmas handler_defs =
  Module_print_def Module_printErr_def Module_onAbort_def established_block_def
  closed_block_def listening_block_def fatal_block_def script_onload_def script_onerror_def
  startServer_def beforeunload_def clearLog_def log_def updateBadge_def setStatus_def Let_def

subsection \<open>The connection counter\<close>

lemma step_connectionCount_nonneg:
  "0 \<le> connectionCount s \<Longrightarrow> 0 \<le> connectionCount (step h e s)"
  by (cases e) (simp_all add: handler_defs)

lemma run_connectionCount_nonneg:
  "0 \<le> connectionCount s \<Longrightarrow> 0 \<le> connectionCount (run h es s)"
  by (induction es arbitrary: s) (simp_all add: step_connectionCount_nonneg)

lemma foldl_show_check_connectionCount:
  "connectionCount (foldl show_check s cs) = connectionCount s"
  by (induction cs arbitrary: s) (auto simp: handler_defs)

lemma page_load_connectionCount: "connectionCount (page_load h d) = 0"
  by (simp add: page_load_def detectCapabilities_def checkEnvironment_def script_start_def
      foldl_show_check_connectionCount handler_defs)

text \<open>
  C4. Whatever events the page receives after it has loaded, the connection counter is
  never below 0; and a diagnostic line that matches the closed pattern while the counter
  is 0 leaves it at 0.
\<close>

theorem connectionCount_never_negative:
  "0 \<le> connectionCount (run h es (page_load h d)) \<and>
   (connectionCount s = 0 \<and> test_i re_closed t \<longrightarrow>
      connectionCount (step h (PrintErr t) s) = 0)"
  by (simp add: run_connectionCount_nonneg page_load_connectionCount handler_defs)

theorem connectionCount_never_negative_witness:
  "0 \<le> connectionCount (run full_host [Click_start, PrintErr ''draining'',
         PrintErr ''new QUIC connection'', PrintErr ''connection timeout'',
         PrintErr ''connection closed''] (page_load full_host blank)) \<and>
   connectionCount (startServer blank) = 0 \<and> test_i re_closed ''connection closed'' \<and>
   connectionCount (step full_host (PrintErr ''connection closed'') (startServer blank)) = 0"
proof -
  have c: "connectionCount (startServer blank) = 0"
    by (simp add: startServer_def blank_def log_def setStatus_def Let_def)
  have t: "test_i re_closed ''connection closed''"
    by code_simp
  from connectionCount_never_negative
    [of full_host _ blank "startServer blank" "''connection closed''"] c t
  show ?thesis by blast
qed

subsection \<open>The badge\<close>

lemma digit_value_nth: "k < 10 \<Longrightarrow> digit_value (''0123456789'' ! k) = k"
proof -
  assume "k < 10"
  then have "k = 0 \<or> k = 1 \<or> k = 2 \<or> k = 3 \<or> k = 4 \<or> k = 5 \<or> k = 6 \<or> k = 7 \<or> k = 8 \<or> k = 9"
    by arith
  then show ?thesis
    unfolding digit_value_def by (elim disjE) simp_all
qed

lemma digit_value_digit_char: "digit_value (digit_char d) = d mod 10"
  by (simp add: digit_char_def digit_value_nth)

lemma decimal_snoc: "decimal (ds @ [c]) = 10 * decimal ds + digit_value c"
  by (simp add: decimal_def)

lemma decimal_String_nat: "decimal (String_nat n) = n"
proof (induction n rule: String_nat.induct)
  case (1 n)
  show ?case
  proof (cases "n < 10")
    case True
    then show ?thesis
      by (subst String_nat.simps) (simp add: decimal_def digit_value_digit_char)
  next
    case False
    with 1 show ?thesis
      by (subst String_nat.simps) (simp add: decimal_snoc digit_value_digit_char)
  qed
qed

lemma decimal_String_int: "0 \<le> c \<Longrightarrow> int (decimal (String_int c)) = c"
  by (simp add: String_int_def decimal_String_nat)

lemma updateBadge_synced: "badge_synced (updateBadge h c s)"
  by (simp add: badge_synced_def updateBadge_def Let_def)

lemma step_badge_synced: "badge_synced s \<Longrightarrow> badge_synced (step h e s)"
  by (cases e) (simp_all add: badge_synced_def handler_defs)

lemma run_badge_synced: "badge_synced s \<Longrightarrow> badge_synced (run h es s)"
  by (induction es arbitrary: s) (simp_all add: step_badge_synced)

text \<open>
  C5. After every badge update the counter is the value \<open>c\<close> asked for, the badge
  element is displayed exactly when \<open>c\<close> is positive, and its text is the decimal
  numeral of \<open>c\<close>; on a host with the Badging API the update calls
  \<open>setAppBadge(c)\<close> when \<open>c\<close> is positive and \<open>clearAppBadge()\<close> otherwise (on a
  host without it there is no external badge and no call). No later event breaks the
  agreement between the badge and the counter.
\<close>

theorem badge_mirrors_connectionCount:
  "badge_synced (updateBadge h c s) \<and>
   connectionCount (updateBadge h c s) = c \<and>
   (badgeDisplay (updateBadge h c s) = ''inline-flex'') = (0 < c) \<and>
   (badgeDisplay (updateBadge h c s) = ''none'') = (c \<le> 0) \<and>
   (0 < c \<longrightarrow> int (decimal (badgeCountEl (updateBadge h c s))) = c) \<and>
   badge_calls (updateBadge h c s) =
     badge_calls s @ (if badgingSupported h
                      then [if 0 < c then setAppBadge c else clearAppBadge] else []) \<and>
   (badge_synced s' \<longrightarrow> badge_synced (run h es s'))"
proof -
  have count: "connectionCount (updateBadge h c s) = c"
    by (simp add: updateBadge_def Let_def)
  have shown: "(badgeDisplay (updateBadge h c s) = ''inline-flex'') = (0 < c)"
    and hidden: "(badgeDisplay (updateBadge h c s) = ''none'') = (c \<le> 0)"
    by (simp_all add: updateBadge_def Let_def)
  have digits: "0 < c \<longrightarrow> int (decimal (badgeCountEl (updateBadge h c s))) = c"
    by (simp add: updateBadge_def Let_def decimal_String_int)
  have calls: "badge_calls (updateBadge h c s) =
     badge_calls s @ (if badgingSupported h
                      then [if 0 < c then setAppBadge c else clearAppBadge] else [])"
    by (simp add: updateBadge_def Let_def)
  from updateBadge_synced count shown hidden digits calls run_badge_synced
  show ?thesis by blast
qed

theorem badge_mirrors_connectionCount_witness:
  "badge_synced (updateBadge full_host 3 blank) \<and>
   badgeDisplay (updateBadge full_host 3 blank) = ''inline-flex'' \<and>
   badgeCountEl (updateBadge full_host 3 blank) = ''3'' \<and>
   int (decimal (badgeCountEl (updateBadge full_host 3 blank))) = 3 \<and>
   badge_calls (updateBadge full_host 3 blank) = [setAppBadge 3] \<and>
   badge_synced (run full_host [PrintErr ''connection closed'', Click_clear]
     (updateBadge full_host 3 (startServer blank)))"
proof -
  have shown3: "badgeCountEl (updateBadge full_host 3 blank) = ''3''"
    by code_simp
  have supported: "badgingSupported full_host"
    by (simp add: badgingSupported_def full_host_def)
  have nocalls: "badge_calls blank = []"
    by (simp add: blank_def)
  from badge_mirrors_connectionCount [where h = full_host and c = 3 and s = blank]
    badge_mirrors_connectionCount [where h = full_host and c = 3 and s = "startServer blank"
      and s' = "updateBadge full_host 3 (startServer blank)"] shown3 supported nocalls
  show ?thesis by (simp del: run.simps)
qed

subsection \<open>Connection triggers\<close>

lemma new_connection_tests:
  "test_i re_established ''new QUIC connection''"
  "\<not> test_i re_closed ''new QUIC connection''"
  "\<not> test re_listening ''new QUIC connection''"
  "\<not> test re_fatal ''new QUIC connection''"
  by code_simp+

lemma connection_closed_tests:
  "\<not> test_i re_established ''connection closed''"
  "test_i re_closed ''connection closed''"
  "\<not> test re_listening ''connection closed''"
  "\<not> test re_fatal ''connection closed''"
  by code_simp+

lemma String_int_small:
  "String_int 1 = ''1''" "String_int 2 = ''2''" "String_int 3 = ''3''"
  by code_simp+

lemma established_block_count:
  "connectionCount (established_block h s) = connectionCount s + 1"
  by (simp add: handler_defs)

lemma established_block_opened:
  "opened (established_block h s) =
     opened s @ [''/quic.html?conn='' @ String_int (connectionCount s + 1)]"
  by (simp add: handler_defs)

lemma printErr_opened:
  "opened (Module_printErr h t s) =
     opened s @ (if test_i re_established t
                 then [''/quic.html?conn='' @ String_int (connectionCount s + 1)] else [])"
  by (simp add: handler_defs)

lemma printErr_count:
  "connectionCount (Module_printErr h t s) =
     (let c = (if test_i re_established t then connectionCount s + 1 else connectionCount s)
      in if test_i re_closed t then max 0 (c - 1) else c)"
  by (simp add: handler_defs)

lemma printErr_Module: "Module (Module_printErr h t s) = Module s"
  by (simp add: handler_defs)

text \<open>
  C6. The block of the established trigger adds exactly 1 to the counter and asks for
  exactly one window, \<open>/quic.html?conn=n\<close> with \<open>n\<close> the counter after the
  addition; a diagnostic line asks for that one window when it matches the established
  pattern and for none when it does not, and leaves the counter one higher unless the
  same line also matches the closed pattern. Three established lines and one closed line,
  from a counter of 0, give a counter of 2 and the windows 1, 2, 3.
\<close>

theorem established_increments_and_spawns:
  "connectionCount (established_block h s) = connectionCount s + 1 \<and>
   opened (established_block h s) =
     opened s @ [''/quic.html?conn='' @ String_int (connectionCount s + 1)] \<and>
   (test_i re_established t \<longrightarrow>
      opened (Module_printErr h t s) =
        opened s @ [''/quic.html?conn='' @ String_int (connectionCount s + 1)]) \<and>
   (test_i re_established t \<and> \<not> test_i re_closed t \<longrightarrow>
      connectionCount (Module_printErr h t s) = connectionCount s + 1) \<and>
   (\<not> test_i re_established t \<longrightarrow> opened (Module_printErr h t s) = opened s) \<and>
   (Module s' \<and> connectionCount s' = 0 \<and> opened s' = [] \<longrightarrow>
      connectionCount (run h [PrintErr ''new QUIC connection'', PrintErr ''new QUIC connection'',
         PrintErr ''new QUIC connection'', PrintErr ''connection closed''] s') = 2 \<and>
      opened (run h [PrintErr ''new QUIC connection'', PrintErr ''new QUIC connection'',
         PrintErr ''new QUIC connection'', PrintErr ''connection closed''] s') =
        [''/quic.html?conn=1'', ''/quic.html?conn=2'', ''/quic.html?conn=3''])"
proof -
  have scenario: "connectionCount (run h [PrintErr ''new QUIC connection'', PrintErr ''new QUIC connection'',
         PrintErr ''new QUIC connection'', PrintErr ''connection closed''] s') = 2 \<and>
      opened (run h [PrintErr ''new QUIC connection'', PrintErr ''new QUIC connection'',
         PrintErr ''new QUIC connection'', PrintErr ''connection closed''] s') =
        [''/quic.html?conn=1'', ''/quic.html?conn=2'', ''/quic.html?conn=3'']"
    if "Module s'" "connectionCount s' = 0" "opened s' = []"
    using that
    by (simp add: printErr_Module printErr_opened printErr_count new_connection_tests
        connection_closed_tests String_int_small)
  show ?thesis
    using scenario
    by (simp add: established_block_count established_block_opened printErr_opened
        printErr_count del: run.simps)
qed


theorem established_increments_and_spawns_witness:
  "test_i re_established ''new QUIC connection'' \<and>
   connectionCount (Module_printErr full_host ''new QUIC connection'' (startServer blank)) = 1 \<and>
   opened (Module_printErr full_host ''new QUIC connection'' (startServer blank)) =
     [''/quic.html?conn=1''] \<and>
   opened (Module_printErr full_host ''connection closed'' (startServer blank)) = [] \<and>
   Module (step full_host Click_start (page_load full_host blank)) \<and>
   connectionCount (run full_host
      [PrintErr ''new QUIC connection'', PrintErr ''new QUIC connection'',
       PrintErr ''new QUIC connection'', PrintErr ''connection closed'']
      (step full_host Click_start (page_load full_host blank))) = 2 \<and>
   opened (run full_host
      [PrintErr ''new QUIC connection'', PrintErr ''new QUIC connection'',
       PrintErr ''new QUIC connection'', PrintErr ''connection closed'']
      (step full_host Click_start (page_load full_host blank))) =
     [''/quic.html?conn=1'', ''/quic.html?conn=2'', ''/quic.html?conn=3'']"
proof -
  have started: "Module (step full_host Click_start (page_load full_host blank))"
    "connectionCount (step full_host Click_start (page_load full_host blank)) = 0"
    "opened (step full_host Click_start (page_load full_host blank)) = []"
    by code_simp+
  have fresh: "connectionCount (startServer blank) = 0" "opened (startServer blank) = []"
    by (simp_all add: startServer_def blank_def log_def setStatus_def Let_def)
  from established_increments_and_spawns
      [where h = full_host and s = "startServer blank" and t = "''new QUIC connection''"
        and s' = "step full_host Click_start (page_load full_host blank)"]
    established_increments_and_spawns
      [where h = full_host and s = "startServer blank" and t = "''connection closed''"]
    started fresh new_connection_tests connection_closed_tests String_int_small
  show ?thesis by (simp del: run.simps step.simps)
qed

lemma listening_and_established_tests:
  "test_i re_established listening_and_established"
  "\<not> test_i re_closed listening_and_established"
  "test re_listening listening_and_established"
  "\<not> test re_fatal listening_and_established"
  by code_simp+

text \<open>
  C7. The line \<open>Listening: new QUIC connection\<close> matches both the listening and the
  established pattern, and \<open>printErr\<close> on that one line adds 1 to the counter, asks
  for the window of the new connection and sets the status to running.
\<close>

theorem one_line_fires_both_triggers:
  "test re_listening listening_and_established \<and>
   test_i re_established listening_and_established \<and>
   connectionCount (Module_printErr h listening_and_established s) = connectionCount s + 1 \<and>
   opened (Module_printErr h listening_and_established s) =
     opened s @ [''/quic.html?conn='' @ String_int (connectionCount s + 1)] \<and>
   statusEl (Module_printErr h listening_and_established s) = ''status-pill status-running'' \<and>
   statusTextEl (Module_printErr h listening_and_established s) =
     ''running '' @ em_dash @ '' port 4433''"
  by (simp add: listening_and_established_tests handler_defs)

subsection \<open>The log\<close>

lemma printErr_logEl:
  "logEl (Module_printErr h t s) = logEl s @ entries_of (connectionCount s) (Diagnostic, t)"
  by (simp add: handler_defs entry_def notice_def)

lemma print_logEl:
  "logEl (Module_print t s) = logEl s @ [entry t]"
  by (simp add: handler_defs entry_def)

lemma deliver_logEl:
  "Module s \<Longrightarrow> logEl (step h (deliver l) s) = logEl s @ entries_of (connectionCount s) l"
  by (cases l rule: deliver.cases) (simp_all add: printErr_logEl print_logEl)

lemma deliver_count:
  "Module s \<Longrightarrow> connectionCount (step h (deliver l) s) = count_after (connectionCount s) l"
  by (cases l rule: deliver.cases) (simp_all add: printErr_count Module_print_def log_def Let_def)

lemma step_Module: "Module s \<Longrightarrow> Module (step h e s)"
  by (cases e) (simp_all add: handler_defs)

lemma run_deliver_logEl:
  "Module s \<Longrightarrow>
   logEl (run h (map deliver ls) s) = logEl s @ transcript (connectionCount s) ls"
proof (induction ls arbitrary: s)
  case Nil
  then show ?case by simp
next
  case (Cons l ls)
  from Cons.prems have m: "Module (step h (deliver l) s)"
    by (rule step_Module)
  show ?case
    using Cons.IH [OF m] Cons.prems
    by (simp add: deliver_logEl deliver_count del: step.simps)
qed

text \<open>
  C8, as amended. A line on the standard channel appends exactly one entry, its own. A
  line on the diagnostic channel appends its own entry first and, when it matches the
  established pattern, a second entry after it, the notice of the new connection. The
  entries of a sequence of lines stand in the log in the order of the lines, behind what
  the log held before.
\<close>

theorem log_entries_in_order_of_receipt:
  "logEl (Module_print t s) = logEl s @ [entry t] \<and>
   logEl (Module_printErr h t s) =
     logEl s @ entry t # (if test_i re_established t then [notice (connectionCount s + 1)] else []) \<and>
   (Module s \<longrightarrow>
      logEl (run h (map deliver ls) s) = logEl s @ transcript (connectionCount s) ls)"
  using run_deliver_logEl [of s h ls] print_logEl [of t s] printErr_logEl [of h t s]
  by simp

text \<open>
  C8, as stated, fails: the diagnostic line \<open>new QUIC connection\<close> leaves two entries
  in the log, and the line count goes up by 2.
\<close>

theorem second_entry_for_established_line:
  "map msg (logEl (step full_host (PrintErr ''new QUIC connection'') (startServer blank))) =
   map msg (logEl (startServer blank)) @
     [''new QUIC connection'', ''Connection #1 '' @ em_dash @ '' badge updated''] \<and>
   lineCount (step full_host (PrintErr ''new QUIC connection'') (startServer blank)) =
   lineCount (startServer blank) + 2"
  by code_simp

theorem log_entries_in_order_of_receipt_witness:
  "Module (startServer blank) \<and>
   logEl (run full_host (map deliver [(Diagnostic, ''new QUIC connection''),
            (Standard, ''hello''), (Diagnostic, ''draining'')]) (startServer blank)) =
   logEl (startServer blank) @
     [entry ''new QUIC connection'', notice 1, entry ''hello'', entry ''draining'']"
proof -
  have started: "Module (startServer blank)" "connectionCount (startServer blank) = 0"
    by (simp_all add: startServer_def blank_def log_def setStatus_def Let_def)
  have tests: "test_i re_established ''new QUIC connection''"
    "\<not> test_i re_closed ''new QUIC connection''"
    "\<not> test_i re_established ''draining''"
    by code_simp+
  from log_entries_in_order_of_receipt [where s = "startServer blank" and h = full_host
      and ls = "[(Diagnostic, ''new QUIC connection''), (Standard, ''hello''),
                 (Diagnostic, ''draining'')]"]
    started tests
  show ?thesis by (simp del: run.simps step.simps)
qed

subsection \<open>Severity\<close>

lemma log_explicit:
  "c \<noteq> [] \<Longrightarrow> logEl (log m (Some c) s) = logEl s @ [\<lparr>className = ''log-line '' @ c, msg = m\<rparr>]"
  by (simp add: log_def Let_def)

lemma severity_first_match: "first_match severity_rules ''log-info'' m = severity m"
  by (simp add: severity_def severity_rules_def)

text \<open>
  C9. \<open>log\<close> gives a line one class. Without a class from the caller it is the class of
  the first rule that matches, in the order error, ok, warning, and \<open>log-info\<close> when no
  rule matches: \<open>severity\<close> is the first match of the ordered table. With a class from
  the caller (a non-empty string) the patterns are not consulted and the entry carries
  that class.
\<close>

theorem severity_first_match_wins:
  "first_match severity_rules ''log-info'' m = severity m \<and>
   (test_i re_err m \<longrightarrow> severity m = ''log-err'') \<and>
   (\<not> test_i re_err m \<and> test_i re_ok m \<longrightarrow> severity m = ''log-ok'') \<and>
   (\<not> test_i re_err m \<and> \<not> test_i re_ok m \<and> test_i re_warn m \<longrightarrow> severity m = ''log-warn'') \<and>
   (\<not> test_i re_err m \<and> \<not> test_i re_ok m \<and> \<not> test_i re_warn m \<longrightarrow>
      severity m = ''log-info'') \<and>
   logEl (log m None s) = logEl s @ [\<lparr>className = ''log-line '' @ severity m, msg = m\<rparr>] \<and>
   (c \<noteq> [] \<longrightarrow>
      logEl (log m (Some c) s) = logEl s @ [\<lparr>className = ''log-line '' @ c, msg = m\<rparr>])"
proof -
  have rules: "(test_i re_err m \<longrightarrow> severity m = ''log-err'') \<and>
   (\<not> test_i re_err m \<and> test_i re_ok m \<longrightarrow> severity m = ''log-ok'') \<and>
   (\<not> test_i re_err m \<and> \<not> test_i re_ok m \<and> test_i re_warn m \<longrightarrow> severity m = ''log-warn'') \<and>
   (\<not> test_i re_err m \<and> \<not> test_i re_ok m \<and> \<not> test_i re_warn m \<longrightarrow>
      severity m = ''log-info'')"
    by (simp add: severity_def)
  have implicit: "logEl (log m None s) = logEl s @ [\<lparr>className = ''log-line '' @ severity m, msg = m\<rparr>]"
    by (simp add: log_def Let_def)
  from severity_first_match rules implicit log_explicit show ?thesis
    by blast
qed

theorem severity_first_match_wins_witness:
  "test_i re_err ''error: loaded with a warning'' \<and>
   test_i re_ok ''error: loaded with a warning'' \<and>
   test_i re_warn ''error: loaded with a warning'' \<and>
   severity ''error: loaded with a warning'' = ''log-err'' \<and>
   severity ''loaded with a warning'' = ''log-ok'' \<and>
   severity ''a warning'' = ''log-warn'' \<and>
   severity ''packet sent'' = ''log-info'' \<and>
   logEl (log ''FATAL: no socket'' (Some ''log-ok'') blank) =
     [\<lparr>className = ''log-line log-ok'', msg = ''FATAL: no socket''\<rparr>]"
proof -
  have all3: "test_i re_err ''error: loaded with a warning''"
    "test_i re_ok ''error: loaded with a warning''"
    "test_i re_warn ''error: loaded with a warning''"
    by code_simp+
  have ok: "\<not> test_i re_err ''loaded with a warning''" "test_i re_ok ''loaded with a warning''"
    by code_simp+
  have warn: "\<not> test_i re_err ''a warning''" "\<not> test_i re_ok ''a warning''"
    "test_i re_warn ''a warning''"
    by code_simp+
  have info: "\<not> test_i re_err ''packet sent''" "\<not> test_i re_ok ''packet sent''"
    "\<not> test_i re_warn ''packet sent''"
    by code_simp+
  have given: "''log-ok'' \<noteq> []" "logEl blank = []"
    by (simp_all add: blank_def)
  from severity_first_match_wins [where m = "''error: loaded with a warning''"]
    severity_first_match_wins [where m = "''loaded with a warning''"]
    severity_first_match_wins [where m = "''a warning''"]
    severity_first_match_wins [where m = "''packet sent''"]
    severity_first_match_wins [where m = "''FATAL: no socket''" and c = "''log-ok''" and s = blank]
    all3 ok warn info given
  show ?thesis by simp
qed

subsection \<open>The standard channel\<close>

lemma step_Print_view: "trigger_view (step h (Print t) s) = trigger_view s"
  by (simp add: trigger_view_def handler_defs)

lemma run_Print_view: "trigger_view (run h (map Print ts) s) = trigger_view s"
  by (induction ts arbitrary: s) (simp_all add: step_Print_view del: step.simps)

lemma run_Print_logEl:
  "Module s \<Longrightarrow> logEl (run h (map Print ts) s) = logEl s @ map entry ts"
proof (induction ts arbitrary: s)
  case Nil
  then show ?case by simp
next
  case (Cons t ts)
  from Cons.prems have "Module (step h (Print t) s)"
    by (rule step_Module)
  from Cons.IH [OF this] Cons.prems show ?case
    by (simp add: print_logEl)
qed

text \<open>
  C10. A line on the standard channel fires no trigger: whatever its text, status,
  overlay, glow, counter, badge, opened windows and start button stay as they were, and
  the log gains the one entry of the line. The same holds line after line for a sequence
  of standard lines.
\<close>

theorem print_fires_no_trigger:
  "trigger_view (step h (Print t) s) = trigger_view s \<and>
   trigger_view (run h (map Print ts) s) = trigger_view s \<and>
   (Module s \<longrightarrow> logEl (step h (Print t) s) = logEl s @ [entry t]) \<and>
   (Module s \<longrightarrow> logEl (run h (map Print ts) s) = logEl s @ map entry ts)"
  using step_Print_view [of h t s] run_Print_view [of h ts s] run_Print_logEl [of s h ts]
  by (simp add: print_logEl del: run.simps)

theorem print_fires_no_trigger_witness:
  "Module (startServer blank) \<and>
   test re_listening listening_and_established \<and>
   trigger_view (step full_host (Print listening_and_established) (startServer blank)) =
     trigger_view (startServer blank) \<and>
   logEl (step full_host (Print listening_and_established) (startServer blank)) =
     logEl (startServer blank) @ [entry listening_and_established] \<and>
   logEl (run full_host (map Print [''FATAL: x'', ''connection closed'']) (startServer blank)) =
     logEl (startServer blank) @ [entry ''FATAL: x'', entry ''connection closed''] \<and>
   trigger_view (step full_host (PrintErr listening_and_established) (startServer blank)) \<noteq>
     trigger_view (startServer blank)"
proof -
  have started: "Module (startServer blank)"
    by (simp add: startServer_def blank_def log_def setStatus_def Let_def)
  have differs: "trigger_view (step full_host (PrintErr listening_and_established) (startServer blank)) \<noteq>
     trigger_view (startServer blank)"
    by (simp add: started trigger_view_def printErr_count listening_and_established_tests)
  from print_fires_no_trigger [where h = full_host and t = listening_and_established
      and s = "startServer blank" and ts = "[''FATAL: x'', ''connection closed'']"]
    started differs listening_and_established_tests
  show ?thesis by (simp del: run.simps step.simps)
qed

subsection \<open>The start button\<close>

lemma step_keeps_disabled:
  "btnStart_disabled s \<Longrightarrow> e \<noteq> Script_error \<Longrightarrow> btnStart_disabled (step h e s)"
  by (cases e) (simp_all add: handler_defs)

lemma run_keeps_disabled:
  "btnStart_disabled s \<Longrightarrow> Script_error \<notin> set es \<Longrightarrow> btnStart_disabled (run h es s)"
proof (induction es arbitrary: s)
  case Nil
  then show ?case by simp
next
  case (Cons e es)
  from Cons.prems have "btnStart_disabled (step h e s)"
    by (auto intro: step_keeps_disabled)
  with Cons show ?case by simp
qed

lemma script_error_enables:
  "0 < pending s \<Longrightarrow> \<not> btnStart_disabled (step h Script_error s)"
  by (simp add: handler_defs)

text \<open>
  C3. A disabled start button stays disabled under every event other than the load
  failure of the script, and so under every sequence of events without one; the load
  failure of a pending script enables it. The handlers of the module (diagnostic line with
  any of its triggers, standard line, abort) and the load handler do not write the
  button, and \<open>startServer\<close> disables it.
\<close>

theorem only_load_failure_enables_start:
  "(btnStart_disabled s \<and> e \<noteq> Script_error \<longrightarrow> btnStart_disabled (step h e s)) \<and>
   (btnStart_disabled s \<and> Script_error \<notin> set es \<longrightarrow> btnStart_disabled (run h es s)) \<and>
   (0 < pending s \<longrightarrow> \<not> btnStart_disabled (step h Script_error s)) \<and>
   btnStart_disabled (Module_printErr h t s) = btnStart_disabled s \<and>
   btnStart_disabled (Module_print t s) = btnStart_disabled s \<and>
   btnStart_disabled (Module_onAbort w s) = btnStart_disabled s \<and>
   btnStart_disabled (script_onload s) = btnStart_disabled s \<and>
   btnStart_disabled (startServer s)"
proof -
  have handlers: "btnStart_disabled (Module_printErr h t s) = btnStart_disabled s"
    "btnStart_disabled (Module_print t s) = btnStart_disabled s"
    "btnStart_disabled (Module_onAbort w s) = btnStart_disabled s"
    "btnStart_disabled (script_onload s) = btnStart_disabled s"
    "btnStart_disabled (startServer s)"
    by (simp_all add: handler_defs)
  from handlers step_keeps_disabled run_keeps_disabled script_error_enables
  show ?thesis by blast
qed

theorem only_load_failure_enables_start_witness:
  "btnStart_disabled (startServer blank) \<and> 0 < pending (startServer blank) \<and>
   btnStart_disabled (step full_host (PrintErr ''FATAL: no socket'') (startServer blank)) \<and>
   btnStart_disabled (run full_host [PrintErr ''FATAL: no socket'', Abort ''out of memory'',
      PrintErr ''Listening on 4433'', PrintErr ''new QUIC connection'', Script_load,
      Click_start, Click_clear] (startServer blank)) \<and>
   btnStart_disabled (step full_host Script_error (startServer blank)) = False"
proof -
  have started: "btnStart_disabled (startServer blank)" "0 < pending (startServer blank)"
    by (simp_all add: startServer_def blank_def log_def setStatus_def Let_def)
  from only_load_failure_enables_start [where s = "startServer blank" and h = full_host
      and e = "PrintErr ''FATAL: no socket''"
      and es = "[PrintErr ''FATAL: no socket'', Abort ''out of memory'',
      PrintErr ''Listening on 4433'', PrintErr ''new QUIC connection'', Script_load,
      Click_start, Click_clear]"] started
  show ?thesis by (simp del: run.simps step.simps)
qed

subsection \<open>The gate on shared memory\<close>

lemma show_check_start:
  "btnStart_disabled (show_check s c) = btnStart_disabled s \<and>
   Module (show_check s c) = Module s \<and>
   scripts (show_check s c) = scripts s \<and>
   pending (show_check s c) = pending s"
  by (cases c) (simp add: log_def Let_def)

lemma foldl_show_check_start:
  "btnStart_disabled (foldl show_check s cs) = btnStart_disabled s \<and>
   Module (foldl show_check s cs) = Module s \<and>
   scripts (foldl show_check s cs) = scripts s \<and>
   pending (foldl show_check s cs) = pending s"
  by (induction cs arbitrary: s) (simp_all add: show_check_start del: show_check.simps)


lemma page_load_gated: "\<not> h SharedArrayBuffer \<Longrightarrow> never_started (page_load h d)"
  by (simp add: never_started_def page_load_def detectCapabilities_def checkEnvironment_def
      script_start_def foldl_show_check_start handler_defs)

lemma page_load_open:
  "h SharedArrayBuffer \<Longrightarrow> btnStart_disabled (page_load h d) = btnStart_disabled d"
  by (simp add: page_load_def detectCapabilities_def checkEnvironment_def
      script_start_def foldl_show_check_start handler_defs)

lemma page_load_scripts: "scripts (page_load h d) = []"
  by (simp add: page_load_def detectCapabilities_def checkEnvironment_def
      script_start_def foldl_show_check_start handler_defs)

lemma step_never_started: "never_started s \<Longrightarrow> never_started (step h e s)"
  by (cases e) (simp_all add: never_started_def handler_defs)

lemma run_never_started: "never_started s \<Longrightarrow> never_started (run h es s)"
  by (induction es arbitrary: s) (simp_all add: step_never_started)

lemma click_start_loads:
  "\<not> btnStart_disabled s \<Longrightarrow> scripts (step h Click_start s) = scripts s @ [''quic_echo_server.js'']"
  by (simp add: handler_defs)


text \<open>
  C1. On a host without \<open>SharedArrayBuffer\<close>, whatever its other probes say, the page
  loads with the start button disabled, and after every sequence of events the button is
  still disabled, no script element has been appended and no \<open>Module\<close> installed. On a
  host with \<open>SharedArrayBuffer\<close>, whatever its other probes say, loading the page leaves
  the button as the markup has it, and a click on the enabled button appends the script of
  the module.
\<close>

theorem shared_memory_is_the_only_gate:
  "(\<not> h SharedArrayBuffer \<longrightarrow>
      btnStart_disabled (page_load h d) \<and>
      btnStart_disabled (run h es (page_load h d)) \<and>
      scripts (run h es (page_load h d)) = [] \<and>
      \<not> Module (run h es (page_load h d))) \<and>
   (h SharedArrayBuffer \<longrightarrow>
      btnStart_disabled (page_load h d) = btnStart_disabled d \<and>
      (\<not> btnStart_disabled d \<longrightarrow>
         scripts (step h Click_start (page_load h d)) = [''quic_echo_server.js'']))"
proof (cases "h SharedArrayBuffer")
  case False
  then have "never_started (page_load h d)"
    by (rule page_load_gated)
  moreover from this have "never_started (run h es (page_load h d))"
    by (rule run_never_started)
  ultimately show ?thesis
    using False by (simp add: never_started_def del: run.simps)
next
  case True
  then have same: "btnStart_disabled (page_load h d) = btnStart_disabled d"
    by (rule page_load_open)
  have "scripts (step h Click_start (page_load h d)) = [''quic_echo_server.js'']"
    if "\<not> btnStart_disabled d"
  proof -
    from that same have "\<not> btnStart_disabled (page_load h d)"
      by simp
    then show ?thesis
      using click_start_loads [of "page_load h d" h]
      by (simp add: page_load_scripts del: step.simps)
  qed
  with True same show ?thesis
    by (simp del: step.simps)
qed


theorem shared_memory_is_the_only_gate_witness:
  "no_sab_host SharedArrayBuffer = False \<and>
   btnStart_disabled (run no_sab_host [Click_start, Script_error, Click_start,
      PrintErr ''Listening on 4433'', Abort ''out of memory''] (page_load no_sab_host blank)) \<and>
   scripts (run no_sab_host [Click_start, Script_error, Click_start,
      PrintErr ''Listening on 4433'', Abort ''out of memory''] (page_load no_sab_host blank)) = [] \<and>
   sab_only_host SharedArrayBuffer \<and> btnStart_disabled blank = False \<and>
   btnStart_disabled (page_load sab_only_host blank) = False \<and>
   scripts (step sab_only_host Click_start (page_load sab_only_host blank)) =
     [''quic_echo_server.js'']"
proof -
  have hosts: "no_sab_host SharedArrayBuffer = False" "sab_only_host SharedArrayBuffer"
    by (simp_all add: no_sab_host_def sab_only_host_def)
  have enabled: "btnStart_disabled blank = False"
    by (simp add: blank_def)
  note closed = shared_memory_is_the_only_gate [where h = no_sab_host and d = blank
      and es = "[Click_start, Script_error, Click_start,
      PrintErr ''Listening on 4433'', Abort ''out of memory'']"]
  note opened = shared_memory_is_the_only_gate [where h = sab_only_host and d = blank]
  from closed hosts(1) have c: "btnStart_disabled (run no_sab_host [Click_start, Script_error, Click_start,
      PrintErr ''Listening on 4433'', Abort ''out of memory''] (page_load no_sab_host blank)) \<and>
   scripts (run no_sab_host [Click_start, Script_error, Click_start,
      PrintErr ''Listening on 4433'', Abort ''out of memory''] (page_load no_sab_host blank)) = []"
    by blast
  from opened hosts(2) enabled have o: "btnStart_disabled (page_load sab_only_host blank) = False \<and>
   scripts (step sab_only_host Click_start (page_load sab_only_host blank)) =
     [''quic_echo_server.js'']"
    by blast
  from c o hosts enabled show ?thesis
    by blast
qed

subsection \<open>The status after an error\<close>

lemma step_keeps_error:
  "shows_error s \<Longrightarrow> \<not> sets_running e \<Longrightarrow> (e = Click_start \<longrightarrow> btnStart_disabled s) \<Longrightarrow>
   shows_error (step h e s)"
  by (cases e) (simp_all add: shows_error_def handler_defs)

lemma step_sets_running:
  "Module s \<Longrightarrow> sets_running e \<Longrightarrow> shows_running (step h e s)"
  by (cases e) (simp_all add: shows_running_def handler_defs)

text \<open>
  C2, as amended. While the status shows an error, every event leaves it showing an error
  except two: a diagnostic line that matches the listening pattern and does not start with
  \<open>FATAL:\<close> sets the status to running, and a click on an enabled start button
  starts the server again.
\<close>

theorem error_display_until_listening:
  "(shows_error s \<and> \<not> sets_running e \<and> (e = Click_start \<longrightarrow> btnStart_disabled s) \<longrightarrow>
      shows_error (step h e s)) \<and>
   (shows_error s \<and> Module s \<and> sets_running e \<longrightarrow> shows_running (step h e s))"
  using step_keeps_error [of s e h] step_sets_running [of s e h] by blast


lemma started_page:
  "Module (startServer blank)" "shows_error (startServer blank) = False"
  by (simp_all add: startServer_def blank_def log_def setStatus_def Let_def shows_error_def)

text \<open>
  C2, as stated, fails: after a fatal diagnostic line has set the status to error, a
  diagnostic line \<open>Listening on port 4433\<close> sets it to running; and so does a line
  \<open>Waiting for QUIC clients\<close> after an abort.
\<close>

theorem listening_after_fatal_shows_running:
  "statusEl (run full_host [Click_start, PrintErr ''FATAL: bind failed'']
      (page_load full_host blank)) = ''status-pill status-error'' \<and>
   statusEl (run full_host [Click_start, PrintErr ''FATAL: bind failed'',
      PrintErr ''Listening on port 4433''] (page_load full_host blank)) =
     ''status-pill status-running'' \<and>
   statusEl (run full_host [Click_start, Abort ''out of memory'']
      (page_load full_host blank)) = ''status-pill status-error'' \<and>
   statusEl (run full_host [Click_start, Abort ''out of memory'',
      PrintErr ''Waiting for QUIC clients''] (page_load full_host blank)) =
     ''status-pill status-running''"
proof -
  have fatal: "statusEl (run full_host [Click_start, PrintErr ''FATAL: bind failed'']
      (page_load full_host blank)) = ''status-pill status-error''"
    by code_simp
  have listening: "statusEl (run full_host [Click_start, PrintErr ''FATAL: bind failed'',
      PrintErr ''Listening on port 4433''] (page_load full_host blank)) =
     ''status-pill status-running''"
    by code_simp
  have aborted: "statusEl (run full_host [Click_start, Abort ''out of memory'']
      (page_load full_host blank)) = ''status-pill status-error''"
    by code_simp
  have waiting: "statusEl (run full_host [Click_start, Abort ''out of memory'',
      PrintErr ''Waiting for QUIC clients''] (page_load full_host blank)) =
     ''status-pill status-running''"
    by code_simp
  from fatal listening aborted waiting show ?thesis
    by blast
qed

lemma bind_failed_tests:
  "test re_fatal ''FATAL: bind failed''" "\<not> test re_listening ''FATAL: bind failed''"
  "\<not> test_i re_established ''FATAL: bind failed''" "\<not> test_i re_closed ''FATAL: bind failed''"
  by code_simp+

lemma listening_on_tests:
  "\<not> test re_fatal ''Listening on port 4433''" "test re_listening ''Listening on port 4433''"
  by code_simp+

theorem error_display_until_listening_witness:
  "shows_error (step full_host (PrintErr ''FATAL: bind failed'') (startServer blank)) \<and>
   shows_error (step full_host (PrintErr ''new QUIC connection'')
      (step full_host (PrintErr ''FATAL: bind failed'') (startServer blank))) \<and>
   sets_running (PrintErr ''Listening on port 4433'') \<and>
   shows_running (step full_host (PrintErr ''Listening on port 4433'')
      (step full_host (PrintErr ''FATAL: bind failed'') (startServer blank)))"
proof -
  have fatal: "shows_error (step full_host (PrintErr ''FATAL: bind failed'') (startServer blank))"
    "Module (step full_host (PrintErr ''FATAL: bind failed'') (startServer blank))"
    by (simp_all add: started_page bind_failed_tests shows_error_def handler_defs)
  have events: "\<not> sets_running (PrintErr ''new QUIC connection'')"
    "sets_running (PrintErr ''Listening on port 4433'')"
    by (simp_all add: new_connection_tests listening_on_tests)
  have other: "PrintErr ''new QUIC connection'' \<noteq> Click_start"
    by simp
  note keeps = error_display_until_listening [where h = full_host
      and s = "step full_host (PrintErr ''FATAL: bind failed'') (startServer blank)"
      and e = "PrintErr ''new QUIC connection''"]
  note resumes = error_display_until_listening [where h = full_host
      and s = "step full_host (PrintErr ''FATAL: bind failed'') (startServer blank)"
      and e = "PrintErr ''Listening on port 4433''"]
  from keeps fatal events(1) other
  have a: "shows_error (step full_host (PrintErr ''new QUIC connection'')
      (step full_host (PrintErr ''FATAL: bind failed'') (startServer blank)))"
    by blast
  from resumes fatal events(2)
  have b: "shows_running (step full_host (PrintErr ''Listening on port 4433'')
      (step full_host (PrintErr ''FATAL: bind failed'') (startServer blank)))"
    by blast
  from fatal(1) a events(2) b show ?thesis
    by blast
qed

end
